theory Spec2Isabelle
  imports Complex_Main "HOL-Library.Sublist" "HOL-Library.Log_Nat"
begin

section \<open>Data model of \<open>job_board/recommendations.py\<close>\<close>

text \<open>
  The recommendation engine reads freelancer profiles, jobs and applications and writes
  rows of the \<open>job_recommendations\<close> table. Only the columns the engine reads or
  writes are kept. Primary keys are natural numbers. A string is the list of the
  bytes of its UTF-8 encoding; equality and the substring test answer on the encodings
  as they do on the characters. Python's \<open>str.lower()\<close>, the Unicode
  lower-casing of the runtime, is a parameter \<open>lower\<close> of every function that reaches it:
  nothing is assumed about it, so each result holds for the lower-casing Python has.

  A Python float is modelled by the rational number it denotes. Every float operation
  of the engine computes the exact result and rounds it with \<open>fl\<close> to the nearest number
  with a 53-bit significand, ties to the even significand, as IEEE 754 double arithmetic
  does. The exponent range is not bounded: overflow, subnormal numbers, infinities and
  NaN are outside the model, and the engine, whose floats are quotients of set sizes and
  numbers between 0 and 1, does not reach them.
\<close>

datatype job_status = Draft | Published | Closed | Archived

datatype algorithm = ContentBased | Collaborative | Hybrid | Trending

record job =
  job_id :: nat
  location :: string
  is_remote :: bool
  job_type :: string
  status :: job_status
  required_skills :: "string list"
    \<comment> \<open>\<open>job.required_skills.values_list('skill__name', flat=True)\<close>\<close>

record freelancer_profile =
  skills :: "string list"
    \<comment> \<open>\<open>profile.skills.values_list('skill__name', flat=True)\<close>\<close>
  preferred_project_types :: "string list"
  preferred_locations :: "string list"
  is_open_to_remote :: bool

record application =
  app_job :: nat
  applicant :: nat

text \<open>
  A \<open>JobRecommendation\<close> row. The engine's constructor call sets user, job, score,
  algorithm type and reason; the interaction flags take their model defaults. The random
  primary key, the creation timestamp and the text of \<open>reason\<close> (a rendering of the
  float score as a percentage) are left out.
\<close>

record job_recommendation =
  rec_user :: nat
  rec_job :: nat
  score :: rat
  algorithm_type :: algorithm
  is_viewed :: bool
  is_clicked :: bool
  is_applied :: bool

record database =
  freelancer_profiles :: "nat \<rightharpoonup> freelancer_profile"
    \<comment> \<open>one-to-one from user id; \<open>None\<close> is \<open>FreelancerProfile.DoesNotExist\<close>\<close>
  jobs :: "job list"
    \<comment> \<open>the \<open>jobs\<close> table in the order a query returns its rows\<close>
  applications :: "application list"
  job_recommendations :: "job_recommendation list"

section \<open>Python primitives\<close>

definition ascii_char_lower :: "char \<Rightarrow> char" where
  "ascii_char_lower c =
     (case map_of (zip ''ABCDEFGHIJKLMNOPQRSTUVWXYZ'' ''abcdefghijklmnopqrstuvwxyz'') c of
        None \<Rightarrow> c
      | Some l \<Rightarrow> l)"

definition ascii_lower :: "string \<Rightarrow> string" where
  \<comment> \<open>what \<open>str.lower()\<close> does to a string of ASCII characters; it stands for the
      parameter \<open>lower\<close> where example data, all ASCII, is evaluated\<close>
  "ascii_lower s = map ascii_char_lower s"

fun starts_with :: "string \<Rightarrow> string \<Rightarrow> bool" where
  "starts_with [] hay = True"
| "starts_with (c # cs) [] = False"
| "starts_with (c # cs) (h # hs) = (c = h \<and> starts_with cs hs)"

fun str_in :: "string \<Rightarrow> string \<Rightarrow> bool" where
  \<comment> \<open>\<open>needle in hay\<close> on two strings\<close>
  "str_in needle [] = (needle = [])"
| "str_in needle (h # hs) = (starts_with needle (h # hs) \<or> str_in needle hs)"

definition round_half_even :: "rat \<Rightarrow> int" where
  "round_half_even x =
     (let f = \<lfloor>x\<rfloor>; d = x - of_int f
      in if d < 1 / 2 then f
         else if 1 / 2 < d then f + 1
         else if even f then f else f + 1)"

definition bin_exponent :: "rat \<Rightarrow> int" where
  \<comment> \<open>for \<open>x > 0\<close> the \<open>e\<close> with \<open>2 ^ e \<le> x < 2 ^ (e + 1)\<close>\<close>
  "bin_exponent x =
     (let (a, b) = quotient_of x; d = bitlen a - bitlen b
      in if 2 powi d \<le> x then d else d - 1)"

definition fl :: "rat \<Rightarrow> rat" where
  \<comment> \<open>the double nearest to \<open>x\<close>\<close>
  "fl x =
     (if x = 0 then 0
      else
        let e = bin_exponent \<bar>x\<bar> - 52;
            m = round_half_even (\<bar>x\<bar> / 2 powi e)
        in sgn x * of_int m * 2 powi e)"

definition float_add :: "rat \<Rightarrow> rat \<Rightarrow> rat" where
  "float_add a b = fl (a + b)"

definition float_mul :: "rat \<Rightarrow> rat \<Rightarrow> rat" where
  "float_mul a b = fl (a * b)"

definition py_round2 :: "rat \<Rightarrow> rat" where
  \<comment> \<open>\<open>round(x, 2)\<close> on a float: the decimal with two places nearest to the exact value
      of \<open>x\<close>, ties to the even last digit, converted back to a double\<close>
  "py_round2 x = fl (of_int (round_half_even (x * 100)) / 100)"

definition py_slice_to :: "'a list \<Rightarrow> int \<Rightarrow> 'a list" where
  \<comment> \<open>\<open>xs[:n]\<close>: a negative bound counts from the end\<close>
  "py_slice_to xs n =
     (if 0 \<le> n then take (nat n) xs else take (length xs - nat (- n)) xs)"

section \<open>The scoring functions\<close>

definition calculate_skills_score :: "freelancer_profile \<Rightarrow> job \<Rightarrow> rat" where
  "calculate_skills_score profile j =
     (let job_skills = set (required_skills j) in
      if job_skills = {} then 1
      else
        let user_skills = set (skills profile) in
        if user_skills = {} then 0
        else
          let matching_skills = user_skills \<inter> job_skills in
          fl (of_nat (card matching_skills) / of_nat (card job_skills)))"
    \<comment> \<open>\<open>len(...) / len(...)\<close>: true division of two ints, the divisor not 0 here\<close>

fun any_location_match :: "(string \<Rightarrow> string) \<Rightarrow> string \<Rightarrow> string list \<Rightarrow> bool" where
  \<comment> \<open>the \<open>for loc in profile.preferred_locations\<close> loop: true when it returns 1.0\<close>
  "any_location_match lower job_loc [] = False"
| "any_location_match lower job_loc (loc # locs) =
     (if str_in (lower loc) job_loc \<or> str_in job_loc (lower loc) then True
      else any_location_match lower job_loc locs)"

definition calculate_location_score ::
  "(string \<Rightarrow> string) \<Rightarrow> freelancer_profile \<Rightarrow> job \<Rightarrow> rat" where
  "calculate_location_score lower profile j =
     (if preferred_locations profile = [] then 1 / 2
      else
        let job_loc = lower (location j) in
        if any_location_match lower job_loc (preferred_locations profile) then 1
        else if is_remote j \<and> is_open_to_remote profile then 1
        else 0)"

definition calculate_type_score :: "freelancer_profile \<Rightarrow> job \<Rightarrow> rat" where
  "calculate_type_score profile j =
     (if preferred_project_types profile = [] then 1 / 2
      else if List.member (preferred_project_types profile) (job_type j) then 1
      else 0)"

definition weight_skills :: rat where
  "weight_skills = fl (6 / 10)"

definition weight_location :: rat where
  "weight_location = fl (2 / 10)"

definition weight_job_type :: rat where
  "weight_job_type = fl (2 / 10)"

definition calculate_score ::
  "(string \<Rightarrow> string) \<Rightarrow> freelancer_profile \<Rightarrow> job \<Rightarrow> rat" where
  "calculate_score lower profile j =
     (let s0 = 0;
          s1 = float_add s0 (float_mul (calculate_skills_score profile j) weight_skills);
          s2 = float_add s1 (float_mul (calculate_location_score lower profile j) weight_location);
          s3 = float_add s2 (float_mul (calculate_type_score profile j) weight_job_type)
      in py_round2 s3)"

section \<open>Generation\<close>

definition new_recommendation :: "nat \<Rightarrow> job \<Rightarrow> rat \<Rightarrow> job_recommendation" where
  \<comment> \<open>\<open>JobRecommendation(user=user, job=job, score=score, algorithm_type='content_based', ...)\<close>\<close>
  "new_recommendation uid j sc =
     \<lparr>rec_user = uid, rec_job = job_id j, score = sc, algorithm_type = ContentBased,
      is_viewed = False, is_clicked = False, is_applied = False\<rparr>"

fun score_jobs ::
  "(string \<Rightarrow> string) \<Rightarrow> nat \<Rightarrow> freelancer_profile \<Rightarrow> job list \<Rightarrow> job_recommendation list"
  where
  \<comment> \<open>the \<open>for job in candidate_jobs\<close> loop, appending in iteration order\<close>
  "score_jobs lower uid profile [] = []"
| "score_jobs lower uid profile (j # js) =
     (let sc = calculate_score lower profile j in
      if fl (1 / 10) < sc then new_recommendation uid j sc # score_jobs lower uid profile js
      else score_jobs lower uid profile js)"

definition candidate_jobs :: "database \<Rightarrow> nat \<Rightarrow> job list" where
  "candidate_jobs db uid =
     (let applied_job_ids = map app_job (filter (\<lambda>a. applicant a = uid) (applications db))
      in filter (\<lambda>j. \<not> List.member applied_job_ids (job_id j))
           (filter (\<lambda>j. status j = Published) (jobs db)))"

definition sort_by_score_desc :: "job_recommendation list \<Rightarrow> job_recommendation list" where
  \<comment> \<open>\<open>recommendations.sort(key=lambda x: x.score, reverse=True)\<close>: stable\<close>
  "sort_by_score_desc rs = sort_key (\<lambda>r. - score r) rs"

definition is_old_batch :: "nat \<Rightarrow> job_recommendation \<Rightarrow> bool" where
  \<comment> \<open>the rows selected by \<open>filter(user=user, algorithm_type='content_based')\<close>\<close>
  "is_old_batch uid r = (rec_user r = uid \<and> algorithm_type r = ContentBased)"

definition generate_recommendations ::
  "(string \<Rightarrow> string) \<Rightarrow> database \<Rightarrow> nat \<Rightarrow> int \<Rightarrow> job_recommendation list \<times> database"
  where
  "generate_recommendations lower db uid limit =
     (case freelancer_profiles db uid of
        None \<Rightarrow> ([], db)
      | Some profile \<Rightarrow>
          let recommendations = score_jobs lower uid profile (candidate_jobs db uid);
              recommendations = sort_by_score_desc recommendations;
              top_recs = py_slice_to recommendations limit;
              db1 = db\<lparr>job_recommendations :=
                        filter (\<lambda>r. \<not> is_old_batch uid r) (job_recommendations db)\<rparr>;
              db2 = db1\<lparr>job_recommendations := job_recommendations db1 @ top_recs\<rparr>
          in (top_recs, db2))"

definition ranked ::
  "(string \<Rightarrow> string) \<Rightarrow> database \<Rightarrow> nat \<Rightarrow> freelancer_profile \<Rightarrow> job_recommendation list"
  where
  \<comment> \<open>the value of \<open>recommendations\<close> after the sort, before the slice\<close>
  "ranked lower db uid profile =
     sort_by_score_desc (score_jobs lower uid profile (candidate_jobs db uid))"

section \<open>The spec's reading of the skills sub-score\<close>

definition skills_score_case_insensitive ::
  "(string \<Rightarrow> string) \<Rightarrow> freelancer_profile \<Rightarrow> job \<Rightarrow> rat" where
  \<comment> \<open>the sub-score as the specification words it: a required skill counts as held when
      some declared skill equals it after both are lower-cased\<close>
  "skills_score_case_insensitive lower profile j =
     (let R = set (required_skills j); U = set (skills profile) in
      if R = {} then 1
      else if U = {} then 0
      else fl (of_nat (card (set (filter (\<lambda>r. lower r \<in> lower ` U) (required_skills j))))
               / of_nat (card R)))"

section \<open>The spec's reading of the final score\<close>

definition exact_weighted_sum ::
  "(string \<Rightarrow> string) \<Rightarrow> freelancer_profile \<Rightarrow> job \<Rightarrow> rat" where
  \<comment> \<open>\<open>0.6 * skills + 0.2 * location + 0.2 * type\<close> as an exact number\<close>
  "exact_weighted_sum lower profile j =
     6 / 10 * calculate_skills_score profile j
     + 2 / 10 * calculate_location_score lower profile j
     + 2 / 10 * calculate_type_score profile j"

definition spec_score_half_even ::
  "(string \<Rightarrow> string) \<Rightarrow> freelancer_profile \<Rightarrow> job \<Rightarrow> rat" where
  \<comment> \<open>the exact sum rounded to two decimal places, a tie going to the even digit\<close>
  "spec_score_half_even lower profile j =
     of_int (round_half_even (exact_weighted_sum lower profile j * 100)) / 100"

definition spec_score_half_up ::
  "(string \<Rightarrow> string) \<Rightarrow> freelancer_profile \<Rightarrow> job \<Rightarrow> rat" where
  \<comment> \<open>the exact sum rounded to two decimal places, a tie going up\<close>
  "spec_score_half_up lower profile j =
     of_int \<lfloor>exact_weighted_sum lower profile j * 100 + 1 / 2\<rfloor> / 100"

section \<open>Example data\<close>

definition ex_job_python :: job where
  "ex_job_python =
     \<lparr>job_id = 11, location = ''Remote'', is_remote = True, job_type = ''full_time'',
      status = Published, required_skills = [''Python'']\<rparr>"

definition ex_job_python_go :: job where
  "ex_job_python_go =
     \<lparr>job_id = 10, location = ''Lagos, Nigeria'', is_remote = False, job_type = ''full_time'',
      status = Published, required_skills = [''Python'', ''Go'']\<rparr>"

definition ex_job_draft :: job where
  "ex_job_draft =
     \<lparr>job_id = 12, location = ''Abuja'', is_remote = False, job_type = ''contract'',
      status = Draft, required_skills = []\<rparr>"

definition ex_profile_no_prefs :: freelancer_profile where
  "ex_profile_no_prefs =
     \<lparr>skills = [], preferred_project_types = [], preferred_locations = [],
      is_open_to_remote = True\<rparr>"

definition ex_profile_contract :: freelancer_profile where
  "ex_profile_contract =
     \<lparr>skills = [''Rust''], preferred_project_types = [''contract''],
      preferred_locations = [], is_open_to_remote = True\<rparr>"

definition ex_profile_lagos :: freelancer_profile where
  "ex_profile_lagos =
     \<lparr>skills = [''python'', ''Go''], preferred_project_types = [],
      preferred_locations = [''Accra'', ''LAGOS''], is_open_to_remote = True\<rparr>"

definition ex_job_eight_skills :: job where
  "ex_job_eight_skills =
     \<lparr>job_id = 13, location = ''Abuja'', is_remote = False, job_type = ''full_time'',
      status = Published,
      required_skills =
        [''Python'', ''Go'', ''Rust'', ''Java'', ''SQL'', ''C'', ''Ruby'', ''PHP'']\<rparr>"

definition ex_profile_one_skill :: freelancer_profile where
  "ex_profile_one_skill =
     \<lparr>skills = [''Python''], preferred_project_types = [''contract''],
      preferred_locations = [], is_open_to_remote = True\<rparr>"




definition ex_rec :: "nat \<Rightarrow> nat \<Rightarrow> rat \<Rightarrow> algorithm \<Rightarrow> job_recommendation" where
  "ex_rec uid jid sc alg =
     \<lparr>rec_user = uid, rec_job = jid, score = sc, algorithm_type = alg,
      is_viewed = False, is_clicked = False, is_applied = False\<rparr>"

definition ex_old_recs :: "job_recommendation list" where
  "ex_old_recs =
     [ex_rec 1 99 (1 / 2) ContentBased, ex_rec 1 98 (1 / 4) Hybrid,
      ex_rec 2 97 (3 / 4) ContentBased, ex_rec 3 96 (7 / 8) ContentBased,
      ex_rec 4 95 (1 / 16) ContentBased]"

definition ex_db :: database where
  "ex_db =
     \<lparr>freelancer_profiles =
        [1 \<mapsto> ex_profile_no_prefs, 2 \<mapsto> ex_profile_contract, 3 \<mapsto> ex_profile_lagos],
      jobs = [ex_job_python, ex_job_draft, ex_job_python_go],
      applications = [\<lparr>app_job = 11, applicant = 2\<rparr>],
      job_recommendations = ex_old_recs\<rparr>"

lemmas ex_defs =
  ex_job_python_def ex_job_python_go_def ex_job_draft_def ex_profile_no_prefs_def
  ex_profile_contract_def ex_profile_lagos_def ex_rec_def ex_old_recs_def ex_db_def

lemmas generate_defs =
  generate_recommendations_def candidate_jobs_def sort_by_score_desc_def py_slice_to_def
  new_recommendation_def is_old_batch_def Let_def

section \<open>Facts about strings and slices\<close>




lemma set_py_slice_to: "set (py_slice_to xs n) \<subseteq> set xs"
  by (simp add: py_slice_to_def set_take_subset)

lemma sorted_wrt_py_slice_to: "sorted_wrt P xs \<Longrightarrow> sorted_wrt P (py_slice_to xs n)"
  by (simp add: py_slice_to_def)

lemma length_py_slice_to: "0 \<le> n \<Longrightarrow> int (length (py_slice_to xs n)) \<le> n"
  by (simp add: py_slice_to_def)

lemma py_slice_to_all: "int (length xs) \<le> n \<Longrightarrow> py_slice_to xs n = xs"
  by (simp add: py_slice_to_def)

section \<open>Facts about rounding to a double\<close>

lemma round_half_even_of_int: "round_half_even (of_int n) = n"
  by (simp add: round_half_even_def)

lemma round_half_even_mono:
  assumes "x \<le> y"
  shows "round_half_even x \<le> round_half_even y"
proof (cases "\<lfloor>x\<rfloor> = \<lfloor>y\<rfloor>")
  case True
  then show ?thesis
    using assms by (auto simp: round_half_even_def Let_def)
next
  case False
  then have "\<lfloor>x\<rfloor> + 1 \<le> \<lfloor>y\<rfloor>"
    using floor_mono [OF assms] by linarith
  moreover have "round_half_even x \<le> \<lfloor>x\<rfloor> + 1"
    by (auto simp: round_half_even_def Let_def)
  moreover have "\<lfloor>y\<rfloor> \<le> round_half_even y"
    by (auto simp: round_half_even_def Let_def)
  ultimately show ?thesis by linarith
qed

lemma bin_exponent_bounds:
  assumes "0 < x"
  shows "2 powi bin_exponent x \<le> x \<and> x < 2 powi (bin_exponent x + 1)"
proof -
  obtain a b where q: "quotient_of x = (a, b)"
    by (cases "quotient_of x")
  have b: "0 < b" using q by (rule quotient_of_denom_pos)
  have x: "x = of_int a / of_int b" using q by (rule quotient_of_div)
  have a: "0 < a" using assms b by (simp add: x zero_less_divide_iff)
  define la lb where "la = bitlen a" and "lb = bitlen b"
  have la1: "1 \<le> la" and lb1: "1 \<le> lb"
    using a b bitlen_eq_zero_iff [of a] bitlen_eq_zero_iff [of b] bitlen_nonneg [of a] bitlen_nonneg [of b]
    by (auto simp: la_def lb_def)
  have "2 ^ nat (la - 1) \<le> a" "a < 2 ^ nat la" "2 ^ nat (lb - 1) \<le> b" "b < 2 ^ nat lb"
    using bitlen_bounds [OF a] bitlen_bounds [OF b] by (simp_all add: la_def lb_def)
  then have "(of_int (2 ^ nat (la - 1)) :: rat) \<le> of_int a" "(of_int a :: rat) < of_int (2 ^ nat la)"
    "(of_int (2 ^ nat (lb - 1)) :: rat) \<le> of_int b" "(of_int b :: rat) < of_int (2 ^ nat lb)"
    unfolding of_int_le_iff of_int_less_iff by simp_all
  then have ra: "(2::rat) powi (la - 1) \<le> of_int a" "(of_int a :: rat) < 2 powi la"
    and rb: "(2::rat) powi (lb - 1) \<le> of_int b" "(of_int b :: rat) < 2 powi lb"
    using la1 lb1 by (simp_all add: power_int_nonneg_exp)
  have pos: "\<And>k. (0::rat) < 2 powi k" by simp
  have up: "x < 2 powi (la - lb + 1)"
  proof -
    have "x < 2 powi la / 2 powi (lb - 1)"
      unfolding x using ra rb a b pos by (intro frac_less) simp_all
    also have "\<dots> = 2 powi (la - lb + 1)"
      by (simp add: power_int_diff power_int_add)
    finally show ?thesis .
  qed
  have lo: "2 powi (la - lb - 1) < x"
  proof -
    have "2 powi (la - 1) / 2 powi lb < (of_int a :: rat) / of_int b"
      using ra rb a b pos by (intro frac_less2) simp_all
    moreover have "(2::rat) powi (la - 1) / 2 powi lb = 2 powi (la - lb - 1)"
      by (simp add: power_int_diff power_int_add)
    ultimately show ?thesis by (simp add: x)
  qed
  show ?thesis
    using up lo q by (auto simp: bin_exponent_def Let_def la_def lb_def)
qed

lemma bin_exponent_mono:
  assumes "0 < x" "x \<le> y"
  shows "bin_exponent x \<le> bin_exponent y"
proof (rule ccontr)
  assume "\<not> ?thesis"
  then have "bin_exponent y + 1 \<le> bin_exponent x" by simp
  then have "(2::rat) powi (bin_exponent y + 1) \<le> 2 powi bin_exponent x"
    by (intro power_int_increasing) simp_all
  moreover have "2 powi bin_exponent x \<le> x" "y < 2 powi (bin_exponent y + 1)"
    using bin_exponent_bounds [of x] bin_exponent_bounds [of y] assms by simp_all
  ultimately show False using assms by linarith
qed

lemma fl_pos_eq:
  assumes "0 < x"
  shows "fl x = of_int (round_half_even (x / 2 powi (bin_exponent x - 52))) * 2 powi (bin_exponent x - 52)"
  using assms by (simp add: fl_def Let_def)

lemma fl_binade:
  assumes "0 < x"
  shows "2 powi bin_exponent x \<le> fl x \<and> fl x \<le> 2 powi (bin_exponent x + 1)"
proof -
  define e where "e = bin_exponent x"
  define u :: rat where "u = 2 powi (e - 52)"
  have u: "0 < u" by (simp add: u_def)
  have b: "2 powi e \<le> x" "x < 2 powi (e + 1)"
    using bin_exponent_bounds [OF assms] by (simp_all add: e_def)
  have lo: "2 powi e = of_int (2 ^ 52) * u" and hi: "2 powi (e + 1) = of_int (2 ^ 53) * u"
    by (simp_all add: u_def power_int_diff power_int_add)
  have "of_int (2 ^ 52) \<le> x / u" "x / u \<le> of_int (2 ^ 53)"
    using b u unfolding lo hi by (simp_all add: pos_le_divide_eq pos_divide_le_eq)
  then have "2 ^ 52 \<le> round_half_even (x / u)" "round_half_even (x / u) \<le> 2 ^ 53"
    using round_half_even_mono [of "of_int (2 ^ 52)" "x / u"]
      round_half_even_mono [of "x / u" "of_int (2 ^ 53)"]
    unfolding round_half_even_of_int by simp_all
  then have "(of_int (2 ^ 52) :: rat) \<le> of_int (round_half_even (x / u))"
    "(of_int (round_half_even (x / u)) :: rat) \<le> of_int (2 ^ 53)"
    unfolding of_int_le_iff by simp_all
  then have "of_int (2 ^ 52) * u \<le> of_int (round_half_even (x / u)) * u"
    "of_int (round_half_even (x / u)) * u \<le> of_int (2 ^ 53) * u"
    using u by (simp_all only: mult_le_cancel_right_pos)
  then show ?thesis
    unfolding fl_pos_eq [OF assms] lo [symmetric] hi [symmetric] e_def [symmetric] u_def [symmetric]
    by simp
qed

lemma fl_nonneg: "0 \<le> x \<Longrightarrow> 0 \<le> fl x"
  using fl_binade [of x] order_trans [of 0 "2 powi bin_exponent x" "fl x"]
  by (cases "x = 0") (simp_all add: fl_def)

lemma fl_mono:
  assumes "0 \<le> x" "x \<le> y"
  shows "fl x \<le> fl y"
proof (cases "x = 0")
  case True
  then show ?thesis using assms fl_nonneg [of y] by (simp add: fl_def)
next
  case False
  then have x: "0 < x" and y: "0 < y" using assms by simp_all
  have le: "bin_exponent x \<le> bin_exponent y"
    using x assms(2) by (rule bin_exponent_mono)
  show ?thesis
  proof (cases "bin_exponent x = bin_exponent y")
    case True
    define u :: rat where "u = 2 powi (bin_exponent y - 52)"
    have u: "0 < u" by (simp add: u_def)
    have "x / u \<le> y / u" using assms(2) u by (simp add: divide_right_mono)
    then have "round_half_even (x / u) \<le> round_half_even (y / u)"
      by (rule round_half_even_mono)
    then have "(of_int (round_half_even (x / u)) :: rat) * u \<le> of_int (round_half_even (y / u)) * u"
      using u by (simp only: mult_le_cancel_right_pos of_int_le_iff)
    then show ?thesis
      unfolding fl_pos_eq [OF x] fl_pos_eq [OF y] True u_def [symmetric] .
  next
    case False
    then have "bin_exponent x + 1 \<le> bin_exponent y" using le by simp
    then have "(2::rat) powi (bin_exponent x + 1) \<le> 2 powi bin_exponent y"
      by (intro power_int_increasing) simp_all
    then show ?thesis
      using fl_binade [OF x] fl_binade [OF y] by linarith
  qed
qed

lemma fl_0: "fl 0 = 0"
  by (simp add: fl_def)


lemma bin_exponent_eqI:
  assumes "0 < x" "2 powi e \<le> x" "x < 2 powi (e + 1)"
  shows "bin_exponent x = e"
proof (rule ccontr)
  assume ne: "bin_exponent x \<noteq> e"
  have b: "2 powi bin_exponent x \<le> x" "x < 2 powi (bin_exponent x + 1)"
    using bin_exponent_bounds [OF assms(1)] by simp_all
  show False
  proof (cases "bin_exponent x < e")
    case True
    then have "(2::rat) powi (bin_exponent x + 1) \<le> 2 powi e"
      by (intro power_int_increasing) simp_all
    then show False using b assms by linarith
  next
    case False
    then have "e + 1 \<le> bin_exponent x" using ne by simp
    then have "(2::rat) powi (e + 1) \<le> 2 powi bin_exponent x"
      by (intro power_int_increasing) simp_all
    then show False using b assms by linarith
  qed
qed

lemma fl_idem:
  assumes "0 \<le> x"
  shows "fl (fl x) = fl x"
proof (cases "x = 0")
  case True
  then show ?thesis by (simp add: fl_def)
next
  case False
  then have x: "0 < x" using assms by simp
  define e where "e = bin_exponent x"
  define u :: rat where "u = 2 powi (e - 52)"
  define m where "m = round_half_even (x / u)"
  have u: "0 < u" by (simp add: u_def)
  have flx: "fl x = of_int m * u"
    using fl_pos_eq [OF x] by (simp add: m_def u_def e_def)
  have lo: "2 powi e = of_int (2 ^ 52) * u" and hi: "2 powi (e + 1) = of_int (2 ^ 53) * u"
    and hi2: "2 powi (e + 2) = of_int (2 ^ 54) * u"
    by (simp_all add: u_def power_int_diff power_int_add)
  have "of_int (2 ^ 52) * u \<le> of_int m * u" "of_int m * u \<le> of_int (2 ^ 53) * u"
    using fl_binade [OF x] unfolding flx e_def [symmetric] lo hi by simp_all
  then have m: "2 ^ 52 \<le> m" "m \<le> 2 ^ 53"
    using u unfolding mult_le_cancel_right_pos [OF u] of_int_le_iff by simp_all
  have pos: "0 < of_int m * u" using m u by simp
  show ?thesis
  proof (cases "m = 2 ^ 53")
    case True
    have "bin_exponent (of_int m * u) = e + 1"
    proof (rule bin_exponent_eqI [OF pos])
      show "2 powi (e + 1) \<le> of_int m * u" unfolding hi True by simp
      show "of_int m * u < 2 powi (e + 1 + 1)"
        using u unfolding True by (simp add: hi2 [simplified] add.commute add.left_commute)
    qed
    then have be: "bin_exponent (of_int m * u) = e + 1" .
    have q: "of_int m * u / 2 powi (e + 1 - 52) = of_int (2 ^ 52)"
      unfolding True by (simp add: u_def power_int_diff power_int_add)
    have "fl (of_int m * u) = of_int (2 ^ 52) * 2 powi (e + 1 - 52)"
      unfolding fl_pos_eq [OF pos] be q round_half_even_of_int ..
    also have "\<dots> = of_int m * u"
      unfolding True by (simp add: u_def power_int_diff power_int_add)
    finally show ?thesis by (simp add: flx)
  next
    case False
    then have "m < 2 ^ 53" using m by simp
    then have "(of_int m :: rat) < of_int (2 ^ 53)"
      unfolding of_int_less_iff .
    then have lt: "of_int m * u < of_int (2 ^ 53) * u"
      using u by (simp only: mult_less_cancel_right_pos)
    have "(of_int (2 ^ 52) :: rat) \<le> of_int m"
      using m unfolding of_int_le_iff by simp
    then have ge: "of_int (2 ^ 52) * u \<le> of_int m * u"
      using u by (simp only: mult_le_cancel_right_pos)
    have be: "bin_exponent (of_int m * u) = e"
      by (rule bin_exponent_eqI [OF pos]) (use lt ge in \<open>simp_all only: lo hi\<close>)
    have q: "of_int m * u / u = of_int m" using u by simp
    have "fl (of_int m * u) = of_int (round_half_even (of_int m * u / u)) * u"
      unfolding fl_pos_eq [OF pos] be u_def [symmetric] ..
    also have "\<dots> = of_int m * u"
      unfolding q round_half_even_of_int ..
    finally show ?thesis by (simp add: flx)
  qed
qed

lemma fl_in_binade:
  assumes "2 powi e \<le> x" "x < 2 powi (e + 1)"
  shows "fl x = of_int (round_half_even (x / 2 powi (e - 52))) * 2 powi (e - 52)"
proof -
  have "(0::rat) < 2 powi e" by simp
  then have x: "0 < x" using assms(1) by linarith
  show ?thesis
    unfolding fl_pos_eq [OF x] bin_exponent_eqI [OF x assms] ..
qed

lemma fl_eval:
  "1 \<le> x \<Longrightarrow> x < 2 \<Longrightarrow> fl x = of_int (round_half_even (x * 2 ^ 52)) / 2 ^ 52"
  "1 / 2 \<le> x \<Longrightarrow> x < 1 \<Longrightarrow> fl x = of_int (round_half_even (x * 2 ^ 53)) / 2 ^ 53"
  "1 / 4 \<le> x \<Longrightarrow> x < 1 / 2 \<Longrightarrow> fl x = of_int (round_half_even (x * 2 ^ 54)) / 2 ^ 54"
  "1 / 8 \<le> x \<Longrightarrow> x < 1 / 4 \<Longrightarrow> fl x = of_int (round_half_even (x * 2 ^ 55)) / 2 ^ 55"
  "1 / 16 \<le> x \<Longrightarrow> x < 1 / 8 \<Longrightarrow> fl x = of_int (round_half_even (x * 2 ^ 56)) / 2 ^ 56"
  "1 / 32 \<le> x \<Longrightarrow> x < 1 / 16 \<Longrightarrow> fl x = of_int (round_half_even (x * 2 ^ 57)) / 2 ^ 57"
proof -
  show "1 \<le> x \<Longrightarrow> x < 2 \<Longrightarrow> fl x = of_int (round_half_even (x * 2 ^ 52)) / 2 ^ 52"
    using fl_in_binade [of 0 x] by (simp add: power_int_minus_divide)
  show "1 / 2 \<le> x \<Longrightarrow> x < 1 \<Longrightarrow> fl x = of_int (round_half_even (x * 2 ^ 53)) / 2 ^ 53"
    using fl_in_binade [of "- 1" x] by (simp add: power_int_minus_divide)
  show "1 / 4 \<le> x \<Longrightarrow> x < 1 / 2 \<Longrightarrow> fl x = of_int (round_half_even (x * 2 ^ 54)) / 2 ^ 54"
    using fl_in_binade [of "- 2" x] by (simp add: power_int_minus_divide)
  show "1 / 8 \<le> x \<Longrightarrow> x < 1 / 4 \<Longrightarrow> fl x = of_int (round_half_even (x * 2 ^ 55)) / 2 ^ 55"
    using fl_in_binade [of "- 3" x] by (simp add: power_int_minus_divide)
  show "1 / 16 \<le> x \<Longrightarrow> x < 1 / 8 \<Longrightarrow> fl x = of_int (round_half_even (x * 2 ^ 56)) / 2 ^ 56"
    using fl_in_binade [of "- 4" x] by (simp add: power_int_minus_divide)
  show "1 / 32 \<le> x \<Longrightarrow> x < 1 / 16 \<Longrightarrow> fl x = of_int (round_half_even (x * 2 ^ 57)) / 2 ^ 57"
    using fl_in_binade [of "- 5" x] by (simp add: power_int_minus_divide)
qed


lemma floor_rat_numeral_divide:
  "\<lfloor>(numeral a :: rat) / numeral b\<rfloor> = numeral a div numeral b"
  using floor_divide_of_int_eq [of "numeral a" "numeral b", where ?'a = rat] by simp

lemmas float_eval =
  float_add_def float_mul_def py_round2_def weight_skills_def weight_location_def
  weight_job_type_def round_half_even_def Let_def floor_rat_numeral_divide fl_0 fl_eval

lemma fl_values:
  "fl 1 = 1"
  "fl (1 / 2) = 1 / 2"
  "fl (1 / 10) = 3602879701896397 / 36028797018963968"
  "fl (1 / 5) = 3602879701896397 / 18014398509481984"
  "fl (3 / 10) = 5404319552844595 / 18014398509481984"
  "fl (3 / 5) = 5404319552844595 / 9007199254740992"
  by (simp_all add: float_eval)

lemma fl_le_1: "0 \<le> x \<Longrightarrow> x \<le> 1 \<Longrightarrow> fl x \<le> 1"
  using fl_mono [of x 1] by (simp add: fl_values)

lemma float_mul_nonneg: "0 \<le> a \<Longrightarrow> 0 \<le> b \<Longrightarrow> 0 \<le> float_mul a b"
  by (simp add: float_mul_def fl_nonneg)

lemma float_add_nonneg: "0 \<le> a \<Longrightarrow> 0 \<le> b \<Longrightarrow> 0 \<le> float_add a b"
  by (simp add: float_add_def fl_nonneg)

lemma float_mul_mono:
  "0 \<le> a \<Longrightarrow> a \<le> a' \<Longrightarrow> 0 \<le> w \<Longrightarrow> float_mul a w \<le> float_mul a' w"
  unfolding float_mul_def by (intro fl_mono) (simp_all add: mult_right_mono)

lemma float_add_mono:
  "0 \<le> a \<Longrightarrow> 0 \<le> b \<Longrightarrow> a \<le> a' \<Longrightarrow> b \<le> b' \<Longrightarrow> float_add a b \<le> float_add a' b'"
  unfolding float_add_def by (intro fl_mono) simp_all

lemma float_add_0_mul: "0 \<le> a \<Longrightarrow> 0 \<le> b \<Longrightarrow> float_add 0 (float_mul a b) = float_mul a b"
  by (simp add: float_add_def float_mul_def fl_idem)

lemma py_round2_two_places:
  assumes "0 \<le> x" "x \<le> 1"
  shows "\<exists>n::nat. n \<le> 100 \<and> py_round2 x = fl (of_nat n / 100)"
proof -
  define m where "m = round_half_even (x * 100)"
  have "round_half_even (of_int 0) \<le> m" "m \<le> round_half_even (of_int 100)"
    unfolding m_def using assms by (intro round_half_even_mono; simp)+
  then have m: "0 \<le> m" "m \<le> 100"
    unfolding round_half_even_of_int by simp_all
  then have "nat m \<le> 100" "(of_int m :: rat) = of_nat (nat m)"
    by simp_all
  then show ?thesis
    unfolding py_round2_def m_def [symmetric] by metis
qed

lemma py_round2_range:
  assumes "0 \<le> x" "x \<le> 1"
  shows "0 \<le> py_round2 x \<and> py_round2 x \<le> 1"
proof -
  obtain n :: nat where n: "n \<le> 100" "py_round2 x = fl (of_nat n / 100)"
    using py_round2_two_places [OF assms] by blast
  have "(of_nat n :: rat) \<le> 100" using n(1) by simp
  then have "(0::rat) \<le> of_nat n / 100" "(of_nat n :: rat) / 100 \<le> 1"
    by simp_all
  then show ?thesis
    unfolding n(2) by (simp add: fl_nonneg fl_le_1)
qed

section \<open>Facts about scoring\<close>

lemma skills_range: "0 \<le> calculate_skills_score p j \<and> calculate_skills_score p j \<le> 1"
proof -
  have "card (set (skills p) \<inter> set (required_skills j)) \<le> card (set (required_skills j))"
    by (rule card_mono) auto
  then have "(of_nat (card (set (skills p) \<inter> set (required_skills j))) :: rat)
               / of_nat (card (set (required_skills j))) \<le> 1"
    by (simp add: divide_le_eq_1 card_gt_0_iff)
  then show ?thesis
    by (simp add: calculate_skills_score_def Let_def fl_nonneg fl_le_1)
qed

lemma location_range:
  "0 \<le> calculate_location_score lw p j \<and> calculate_location_score lw p j \<le> 1"
  by (simp add: calculate_location_score_def Let_def)

lemma type_range: "0 \<le> calculate_type_score p j \<and> calculate_type_score p j \<le> 1"
  by (simp add: calculate_type_score_def)

lemma weights_nonneg: "0 \<le> weight_skills" "0 \<le> weight_location" "0 \<le> weight_job_type"
  by (simp_all add: weight_skills_def weight_location_def weight_job_type_def fl_nonneg)

lemma weights_sum:
  "float_add (float_add (float_mul 1 weight_skills) (float_mul 1 weight_location))
     (float_mul 1 weight_job_type) = 1"
  by (simp add: float_eval)

lemma weighted_sum_range:
  assumes "0 \<le> s" "s \<le> 1" "0 \<le> l" "l \<le> 1" "0 \<le> t" "t \<le> 1"
  shows "0 \<le> float_add (float_add (float_mul s weight_skills) (float_mul l weight_location))
                 (float_mul t weight_job_type)
       \<and> float_add (float_add (float_mul s weight_skills) (float_mul l weight_location))
            (float_mul t weight_job_type) \<le> 1"
proof -
  have a: "0 \<le> float_mul s weight_skills" "0 \<le> float_mul l weight_location"
    "0 \<le> float_mul t weight_job_type"
    using assms weights_nonneg by (simp_all add: float_mul_nonneg)
  have b: "float_mul s weight_skills \<le> float_mul 1 weight_skills"
    "float_mul l weight_location \<le> float_mul 1 weight_location"
    "float_mul t weight_job_type \<le> float_mul 1 weight_job_type"
    using assms weights_nonneg by (simp_all add: float_mul_mono)
  have c: "0 \<le> float_add (float_mul s weight_skills) (float_mul l weight_location)"
    using a by (simp add: float_add_nonneg)
  have "float_add (float_mul s weight_skills) (float_mul l weight_location)
          \<le> float_add (float_mul 1 weight_skills) (float_mul 1 weight_location)"
    using a b by (intro float_add_mono)
  then have "float_add (float_add (float_mul s weight_skills) (float_mul l weight_location))
               (float_mul t weight_job_type)
          \<le> float_add (float_add (float_mul 1 weight_skills) (float_mul 1 weight_location))
               (float_mul 1 weight_job_type)"
    using a b c by (intro float_add_mono)
  then show ?thesis
    using a c by (simp add: weights_sum float_add_nonneg)
qed

lemma calculate_score_eq:
  "calculate_score lw p j =
     py_round2
       (float_add
          (float_add (float_mul (calculate_skills_score p j) weight_skills)
             (float_mul (calculate_location_score lw p j) weight_location))
          (float_mul (calculate_type_score p j) weight_job_type))"
  using skills_range [of p j] weights_nonneg
  by (simp add: calculate_score_def Let_def float_add_0_mul)

section \<open>How far a float result is from the exact one\<close>

lemma round_half_even_close: "\<bar>of_int (round_half_even x) - x\<bar> \<le> 1 / 2"
proof -
  have "of_int \<lfloor>x\<rfloor> \<le> x" "x < of_int \<lfloor>x\<rfloor> + 1"
    by linarith+
  then show ?thesis
    by (auto simp: round_half_even_def Let_def abs_le_iff)
qed

lemma fl_rel_error:
  assumes "0 \<le> x"
  shows "\<bar>fl x - x\<bar> \<le> x / 2 ^ 53"
proof (cases "x = 0")
  case True
  then show ?thesis by (simp add: fl_0)
next
  case False
  then have x: "0 < x" using assms by simp
  define e where "e = bin_exponent x"
  define u :: rat where "u = 2 powi (e - 52)"
  define m where "m = round_half_even (x / u)"
  have u: "0 < u" by (simp add: u_def)
  have flx: "fl x = of_int m * u"
    using fl_pos_eq [OF x] by (simp add: e_def u_def m_def)
  have "\<bar>of_int m - x / u\<bar> \<le> 1 / 2"
    unfolding m_def by (rule round_half_even_close)
  then have "\<bar>of_int m - x / u\<bar> * u \<le> 1 / 2 * u"
    using u by (intro mult_right_mono) simp_all
  moreover have "\<bar>of_int m - x / u\<bar> * u = \<bar>of_int m * u - x\<bar>"
  proof -
    have "\<bar>of_int m - x / u\<bar> * u = \<bar>(of_int m - x / u) * u\<bar>"
      using u by (simp add: abs_mult)
    also have "(of_int m - x / u) * u = of_int m * u - x"
      using u by (simp add: algebra_simps)
    finally show ?thesis .
  qed
  ultimately have err: "\<bar>fl x - x\<bar> \<le> u / 2"
    by (simp add: flx)
  have "2 powi e \<le> x"
    using bin_exponent_bounds [OF x] by (simp add: e_def)
  moreover have "2 powi e = 2 ^ 52 * u"
    by (simp add: u_def power_int_diff)
  ultimately have "u / 2 \<le> x / 2 ^ 53"
    by simp
  then show ?thesis using err by linarith
qed

lemma fl_abs_error:
  assumes "0 \<le> x" "x \<le> b"
  shows "\<bar>fl x - x\<bar> \<le> b / 2 ^ 53"
proof -
  have "x / 2 ^ 53 \<le> b / 2 ^ 53"
    using assms(2) by (simp add: divide_right_mono)
  then show ?thesis
    using fl_rel_error [OF assms(1)] by linarith
qed

lemma float_mul_weight_error:
  assumes "0 \<le> s" "s \<le> 1" "0 \<le> q" "q \<le> 1"
  shows "\<bar>float_mul s (fl q) - s * q\<bar> \<le> 2 / 2 ^ 53"
    and "0 \<le> float_mul s (fl q)" and "float_mul s (fl q) \<le> 1"
proof -
  have w: "0 \<le> fl q" "fl q \<le> 1"
    using assms by (simp_all add: fl_nonneg fl_le_1)
  have wq: "\<bar>fl q - q\<bar> \<le> 1 / 2 ^ 53"
    using fl_abs_error [OF assms(3) assms(4)] .
  have p: "0 \<le> s * fl q" "s * fl q \<le> 1"
    using assms w by (simp_all add: mult_le_one)
  have e1: "\<bar>fl (s * fl q) - s * fl q\<bar> \<le> 1 / 2 ^ 53"
    using fl_abs_error [OF p] .
  have "\<bar>s * fl q - s * q\<bar> = s * \<bar>fl q - q\<bar>"
    using assms(1) by (simp add: abs_mult right_diff_distrib [symmetric])
  also have "\<dots> \<le> 1 * \<bar>fl q - q\<bar>"
    using assms(2) by (intro mult_right_mono) simp_all
  finally have e2: "\<bar>s * fl q - s * q\<bar> \<le> 1 / 2 ^ 53"
    using wq by simp
  show "\<bar>float_mul s (fl q) - s * q\<bar> \<le> 2 / 2 ^ 53"
    unfolding float_mul_def using e1 e2 by linarith
  show "0 \<le> float_mul s (fl q)" "float_mul s (fl q) \<le> 1"
    unfolding float_mul_def using p by (simp_all add: fl_nonneg fl_le_1)
qed

lemma float_add_error:
  assumes "0 \<le> a" "0 \<le> b" "a + b \<le> c"
  shows "\<bar>float_add a b - (a + b)\<bar> \<le> c / 2 ^ 53"
  unfolding float_add_def using assms by (intro fl_abs_error) simp_all

lemma weighted_sum_error:
  assumes "0 \<le> s" "s \<le> 1" "0 \<le> l" "l \<le> 1" "0 \<le> t" "t \<le> 1"
  shows "\<bar>float_add (float_add (float_mul s weight_skills) (float_mul l weight_location))
            (float_mul t weight_job_type)
          - (6 / 10 * s + 2 / 10 * l + 2 / 10 * t)\<bar> \<le> 12 / 2 ^ 53"
proof -
  define a where "a = float_mul s weight_skills"
  define b where "b = float_mul l weight_location"
  define c where "c = float_mul t weight_job_type"
  have a: "\<bar>a - s * (6 / 10)\<bar> \<le> 2 / 2 ^ 53" "0 \<le> a" "a \<le> 1"
    unfolding a_def weight_skills_def using assms by (intro float_mul_weight_error; simp)+
  have b: "\<bar>b - l * (2 / 10)\<bar> \<le> 2 / 2 ^ 53" "0 \<le> b" "b \<le> 1"
    unfolding b_def weight_location_def using assms by (intro float_mul_weight_error; simp)+
  have c: "\<bar>c - t * (2 / 10)\<bar> \<le> 2 / 2 ^ 53" "0 \<le> c" "c \<le> 1"
    unfolding c_def weight_job_type_def using assms by (intro float_mul_weight_error; simp)+
  have ab: "\<bar>float_add a b - (a + b)\<bar> \<le> 2 / 2 ^ 53"
    using a b by (intro float_add_error) simp_all
  have ab0: "0 \<le> float_add a b"
    using a b by (simp add: float_add_nonneg)
  have "(2::rat) / 2 ^ 53 \<le> 1"
    by simp
  then have ab3: "float_add a b + c \<le> 4"
    using ab a(3) b(3) c(3) by linarith
  have abc: "\<bar>float_add (float_add a b) c - (float_add a b + c)\<bar> \<le> 4 / 2 ^ 53"
    using ab0 c ab3 by (intro float_add_error) simp_all
  show ?thesis
    unfolding a_def [symmetric] b_def [symmetric] c_def [symmetric]
    using a(1) b(1) c(1) ab abc by linarith
qed

lemma py_round2_error:
  assumes "0 \<le> x" "x \<le> 1"
  shows "\<bar>py_round2 x - x\<bar> \<le> 1 / 200 + 1 / 2 ^ 53"
proof -
  define n where "n = round_half_even (x * 100)"
  have "\<bar>of_int n - x * 100\<bar> \<le> 1 / 2"
    unfolding n_def by (rule round_half_even_close)
  then have close: "\<bar>of_int n / 100 - x\<bar> \<le> 1 / 200"
    by linarith
  have "round_half_even (of_int 0) \<le> n" "n \<le> round_half_even (of_int 100)"
    unfolding n_def using assms by (intro round_half_even_mono; simp)+
  then have "0 \<le> n" "n \<le> 100"
    unfolding round_half_even_of_int by simp_all
  then have "(0::rat) \<le> of_int n / 100" "(of_int n :: rat) / 100 \<le> 1"
    by simp_all
  then have "\<bar>fl (of_int n / 100) - of_int n / 100\<bar> \<le> 1 / 2 ^ 53"
    by (rule fl_abs_error)
  then show ?thesis
    unfolding py_round2_def n_def [symmetric] using close by linarith
qed

section \<open>Facts about generation\<close>

lemma score_jobs_eq:
  "score_jobs lw uid p js =
     map (\<lambda>j. new_recommendation uid j (calculate_score lw p j))
       (filter (\<lambda>j. fl (1 / 10) < calculate_score lw p j) js)"
  by (induction js) (simp_all add: Let_def)

lemma score_jobs_empty:
  "\<forall>j\<in>set js. \<not> fl (1 / 10) < calculate_score lw p j \<Longrightarrow> score_jobs lw uid p js = []"
  by (simp add: score_jobs_eq filter_empty_conv)

lemma length_score_jobs: "length (score_jobs lw uid p js) \<le> length js"
  by (simp add: score_jobs_eq)

lemma score_jobs_threshold: "r \<in> set (score_jobs lw uid p js) \<Longrightarrow> fl (1 / 10) < score r"
  by (auto simp: score_jobs_eq new_recommendation_def)

lemma score_jobs_old_batch: "r \<in> set (score_jobs lw uid p js) \<Longrightarrow> is_old_batch uid r"
  by (auto simp: score_jobs_eq new_recommendation_def is_old_batch_def)

lemma score_jobs_member:
  "j \<in> set js \<Longrightarrow>
   new_recommendation uid j (calculate_score lw p j) \<in> set (score_jobs lw uid p js)
     \<longleftrightarrow> fl (1 / 10) < calculate_score lw p j"
  by (auto simp: score_jobs_eq new_recommendation_def)

lemma set_sort_by_score_desc: "set (sort_by_score_desc rs) = set rs"
  by (simp add: sort_by_score_desc_def)

lemma length_sort_by_score_desc: "length (sort_by_score_desc rs) = length rs"
  by (simp add: sort_by_score_desc_def)

lemma sorted_sort_by_score_desc:
  "sorted_wrt (\<lambda>a b. score b \<le> score a) (sort_by_score_desc rs)"
proof -
  have "sorted (map (\<lambda>r. - score r) (sort_key (\<lambda>r. - score r) rs))"
    by (rule sorted_sort_key)
  then show ?thesis
    by (simp add: sort_by_score_desc_def sorted_map)
qed

lemma set_ranked: "set (ranked lw db uid p) = set (score_jobs lw uid p (candidate_jobs db uid))"
  by (simp add: ranked_def set_sort_by_score_desc)

lemma length_ranked: "length (ranked lw db uid p) \<le> length (candidate_jobs db uid)"
  by (simp add: ranked_def length_sort_by_score_desc length_score_jobs)

lemma batch_old_batch: "r \<in> set (py_slice_to (ranked lw db uid p) n) \<Longrightarrow> is_old_batch uid r"
  using set_py_slice_to [of "ranked lw db uid p" n] score_jobs_old_batch
  by (auto simp: set_ranked)

lemma batch_threshold: "r \<in> set (py_slice_to (ranked lw db uid p) n) \<Longrightarrow> fl (1 / 10) < score r"
  using set_py_slice_to [of "ranked lw db uid p" n] score_jobs_threshold
  by (auto simp: set_ranked)

lemma generate_Some:
  "freelancer_profiles db uid = Some p \<Longrightarrow>
   generate_recommendations lw db uid limit =
     (py_slice_to (ranked lw db uid p) limit,
      db\<lparr>job_recommendations :=
           filter (\<lambda>r. \<not> is_old_batch uid r) (job_recommendations db)
           @ py_slice_to (ranked lw db uid p) limit\<rparr>)"
  by (simp add: generate_recommendations_def ranked_def Let_def)

lemma generate_None:
  "freelancer_profiles db uid = None \<Longrightarrow> generate_recommendations lw db uid limit = ([], db)"
  by (simp add: generate_recommendations_def)

section \<open>The example data evaluated\<close>

lemma ex_fields:
  "job_id ex_job_python = 11" "status ex_job_python = Published"
  "job_id ex_job_python_go = 10" "status ex_job_python_go = Published"
  "job_id ex_job_draft = 12" "status ex_job_draft = Draft"
  by (simp_all add: ex_job_python_def ex_job_python_go_def ex_job_draft_def)

lemma ex_subscores:
  "calculate_skills_score ex_profile_no_prefs ex_job_python = 0"
  "calculate_location_score ascii_lower ex_profile_no_prefs ex_job_python = 1 / 2"
  "calculate_type_score ex_profile_no_prefs ex_job_python = 1 / 2"
  "calculate_skills_score ex_profile_no_prefs ex_job_python_go = 0"
  "calculate_location_score ascii_lower ex_profile_no_prefs ex_job_python_go = 1 / 2"
  "calculate_type_score ex_profile_no_prefs ex_job_python_go = 1 / 2"
  "calculate_skills_score ex_profile_contract ex_job_python_go = 0"
  "calculate_location_score ascii_lower ex_profile_contract ex_job_python_go = 1 / 2"
  "calculate_type_score ex_profile_contract ex_job_python_go = 0"
  "calculate_skills_score ex_profile_lagos ex_job_python = 0"
  "calculate_location_score ascii_lower ex_profile_lagos ex_job_python = 1"
  "calculate_type_score ex_profile_lagos ex_job_python = 1 / 2"
  "calculate_skills_score ex_profile_lagos ex_job_python_go = 1 / 2"
  "calculate_location_score ascii_lower ex_profile_lagos ex_job_python_go = 1"
  "calculate_type_score ex_profile_lagos ex_job_python_go = 1 / 2"
  by (simp_all add: calculate_skills_score_def calculate_location_score_def
      calculate_type_score_def ascii_lower_def ascii_char_lower_def ex_defs fl_values fl_0)

lemma ex_weighted_sums:
  "py_round2 (float_add (float_add (float_mul 0 weight_skills)
      (float_mul (1 / 2) weight_location)) (float_mul (1 / 2) weight_job_type)) = fl (1 / 5)"
  "py_round2 (float_add (float_add (float_mul 0 weight_skills)
      (float_mul (1 / 2) weight_location)) (float_mul 0 weight_job_type)) = fl (1 / 10)"
  "py_round2 (float_add (float_add (float_mul 0 weight_skills)
      (float_mul 1 weight_location)) (float_mul (1 / 2) weight_job_type)) = fl (3 / 10)"
  "py_round2 (float_add (float_add (float_mul (1 / 2) weight_skills)
      (float_mul 1 weight_location)) (float_mul (1 / 2) weight_job_type)) = fl (3 / 5)"
  by (simp_all add: float_eval)

lemma ex_scores:
  "calculate_score ascii_lower ex_profile_no_prefs ex_job_python = fl (1 / 5)"
  "calculate_score ascii_lower ex_profile_no_prefs ex_job_python_go = fl (1 / 5)"
  "calculate_score ascii_lower ex_profile_contract ex_job_python_go = fl (1 / 10)"
  "calculate_score ascii_lower ex_profile_lagos ex_job_python = fl (3 / 10)"
  "calculate_score ascii_lower ex_profile_lagos ex_job_python_go = fl (3 / 5)"
  by (simp_all only: calculate_score_eq ex_subscores ex_weighted_sums)

lemmas ex_eval =
  generate_defs ex_db_def ex_old_recs_def ex_rec_def ex_fields ex_scores fl_values

section \<open>Skills sub-score (C1)\<close>

text \<open>
  Claim C1, as the code has it: the skills sub-score is 1 when the job's required-skill
  set \<open>R\<close> is empty, otherwise 0 when the candidate's declared-skill set \<open>U\<close> is empty,
  otherwise the float quotient \<open>|R \<inter> U| / |R|\<close>, where membership is plain string
  equality: the two name sets are intersected as they are stored, with no case
  normalisation.
\<close>

theorem skills_score_exact_match:
  "calculate_skills_score p j =
     (if set (required_skills j) = {} then 1
      else if set (skills p) = {} then 0
      else fl (of_nat (card (set (required_skills j) \<inter> set (skills p)))
               / of_nat (card (set (required_skills j)))))"
  by (simp add: calculate_skills_score_def Let_def Int_commute)

text \<open>
  The equation at a candidate declaring \<open>python\<close> and \<open>Go\<close> against a job requiring
  \<open>Python\<close> and \<open>Go\<close>: one of two required names is matched.
\<close>

theorem skills_score_exact_match_witness:
  "calculate_skills_score ex_profile_lagos ex_job_python_go = 1 / 2"
  using skills_score_exact_match [of ex_profile_lagos ex_job_python_go]
  by (simp add: ex_defs fl_values)

text \<open>
  Claim C1 as stated (equality after normalising case) fails on the same input: with
  case folded both required skills are held and the sub-score would be 1, while the code
  returns 1/2.
\<close>

theorem skills_score_case_counterexample:
  "calculate_skills_score ex_profile_lagos ex_job_python_go
     \<noteq> skills_score_case_insensitive ascii_lower ex_profile_lagos ex_job_python_go"
  by (simp add: skills_score_case_insensitive_def calculate_skills_score_def
      ascii_lower_def ascii_char_lower_def ex_defs fl_values)

section \<open>Final score (C2)\<close>

text \<open>
  Claim C2 as stated (the score is the exact weighted sum rounded to two decimal places
  under one tie rule) fails where the exact sum is a tie. A candidate holding one of eight
  required skills, without location preferences and with a job-type preference the job
  does not meet, has the exact sum \<open>0.6 * 1/8 + 0.2 * 0.5 + 0.2 * 0 = 0.175\<close>, which
  rounds to 0.18 under half-even and under half-up alike; the float sum of the code lies
  just below 0.175 and \<open>round\<close> gives 0.17.
\<close>

theorem calculate_score_exact_rounding_counterexample:
  "calculate_score ascii_lower ex_profile_one_skill ex_job_eight_skills = fl (17 / 100)
   \<and> exact_weighted_sum ascii_lower ex_profile_one_skill ex_job_eight_skills = 175 / 1000
   \<and> spec_score_half_even ascii_lower ex_profile_one_skill ex_job_eight_skills = 18 / 100
   \<and> spec_score_half_up ascii_lower ex_profile_one_skill ex_job_eight_skills = 18 / 100
   \<and> fl (17 / 100) \<noteq> fl (18 / 100)"
proof -
  have s: "calculate_skills_score ex_profile_one_skill ex_job_eight_skills = 1 / 8"
    "calculate_location_score ascii_lower ex_profile_one_skill ex_job_eight_skills = 1 / 2"
    "calculate_type_score ex_profile_one_skill ex_job_eight_skills = 0"
    by (simp_all add: calculate_skills_score_def calculate_location_score_def
        calculate_type_score_def ex_job_eight_skills_def ex_profile_one_skill_def float_eval)
  have "calculate_score ascii_lower ex_profile_one_skill ex_job_eight_skills = fl (17 / 100)"
    unfolding calculate_score_eq s by (simp add: float_eval)
  moreover have "exact_weighted_sum ascii_lower ex_profile_one_skill ex_job_eight_skills
                   = 175 / 1000"
    unfolding exact_weighted_sum_def s by simp
  moreover have "spec_score_half_even ascii_lower ex_profile_one_skill ex_job_eight_skills
                   = 18 / 100"
    unfolding spec_score_half_even_def exact_weighted_sum_def s
    by (simp add: round_half_even_def Let_def floor_rat_numeral_divide)
  moreover have "spec_score_half_up ascii_lower ex_profile_one_skill ex_job_eight_skills
                   = 18 / 100"
    unfolding spec_score_half_up_def exact_weighted_sum_def s
    by (simp add: floor_rat_numeral_divide)
  moreover have "fl (17 / 100) \<noteq> fl (18 / 100)"
    by (simp add: float_eval)
  ultimately show ?thesis by blast
qed

text \<open>
  Claim C2, as the code has it: the final score is
  \<open>round(0.6 * skills + 0.2 * location + 0.2 * job_type, 2)\<close> evaluated in the program's
  double arithmetic, so it is within \<open>0.005 + 2^-49\<close> of the exact weighted sum (the
  nearest hundredth, except that next to a tie it can be the hundredth on the other
  side); each of the three sub-scores lies between 0 and 1; and the final score lies
  between 0 and 1 and is the float of a decimal \<open>n / 100\<close> with \<open>n\<close> from 0 to 100, so it
  has at most two decimal digits.
\<close>

theorem calculate_score_weighted_and_rounded:
  "calculate_score lw p j =
     py_round2
       (float_add
          (float_add (float_mul (fl (6 / 10)) (calculate_skills_score p j))
             (float_mul (fl (2 / 10)) (calculate_location_score lw p j)))
          (float_mul (fl (2 / 10)) (calculate_type_score p j)))
   \<and> \<bar>calculate_score lw p j
        - (6 / 10 * calculate_skills_score p j + 2 / 10 * calculate_location_score lw p j
           + 2 / 10 * calculate_type_score p j)\<bar> \<le> 1 / 200 + 1 / 2 ^ 49
   \<and> 0 \<le> calculate_skills_score p j \<and> calculate_skills_score p j \<le> 1
   \<and> 0 \<le> calculate_location_score lw p j \<and> calculate_location_score lw p j \<le> 1
   \<and> 0 \<le> calculate_type_score p j \<and> calculate_type_score p j \<le> 1
   \<and> 0 \<le> calculate_score lw p j \<and> calculate_score lw p j \<le> 1
   \<and> (\<exists>n::nat. n \<le> 100 \<and> calculate_score lw p j = fl (of_nat n / 100))"
proof -
  let ?raw = "float_add
          (float_add (float_mul (calculate_skills_score p j) weight_skills)
             (float_mul (calculate_location_score lw p j) weight_location))
          (float_mul (calculate_type_score p j) weight_job_type)"
  let ?exact = "6 / 10 * calculate_skills_score p j + 2 / 10 * calculate_location_score lw p j
           + 2 / 10 * calculate_type_score p j"
  have comm: "\<And>a b. float_mul a b = float_mul b a"
    by (simp add: float_mul_def mult.commute)
  have eq: "calculate_score lw p j = py_round2 ?raw"
    by (rule calculate_score_eq)
  have sub: "0 \<le> calculate_skills_score p j" "calculate_skills_score p j \<le> 1"
    "0 \<le> calculate_location_score lw p j" "calculate_location_score lw p j \<le> 1"
    "0 \<le> calculate_type_score p j" "calculate_type_score p j \<le> 1"
    using skills_range [of p j] location_range [of lw p j] type_range [of p j] by simp_all
  have raw: "0 \<le> ?raw" "?raw \<le> 1"
    using weighted_sum_range [OF sub] by simp_all
  have formula: "calculate_score lw p j =
     py_round2
       (float_add
          (float_add (float_mul (fl (6 / 10)) (calculate_skills_score p j))
             (float_mul (fl (2 / 10)) (calculate_location_score lw p j)))
          (float_mul (fl (2 / 10)) (calculate_type_score p j)))"
    unfolding eq weight_skills_def weight_location_def weight_job_type_def
    by (simp only: comm [of "fl (6 / 10)"] comm [of "fl (2 / 10)"])
  have "\<bar>py_round2 ?raw - ?raw\<bar> \<le> 1 / 200 + 1 / 2 ^ 53"
    using raw by (rule py_round2_error)
  moreover have "\<bar>?raw - ?exact\<bar> \<le> 12 / 2 ^ 53"
    using weighted_sum_error [OF sub] .
  moreover have "(13::rat) / 2 ^ 53 \<le> 1 / 2 ^ 49"
    by simp
  ultimately have close: "\<bar>calculate_score lw p j - ?exact\<bar> \<le> 1 / 200 + 1 / 2 ^ 49"
    unfolding eq by linarith
  have range: "0 \<le> calculate_score lw p j \<and> calculate_score lw p j \<le> 1"
    unfolding eq using raw by (rule py_round2_range)
  have places: "\<exists>n::nat. n \<le> 100 \<and> calculate_score lw p j = fl (of_nat n / 100)"
    unfolding eq using raw by (rule py_round2_two_places)
  show ?thesis
    using formula close range places sub by blast
qed

text \<open>
  A candidate holding one of two required skills, with a matching location and no
  job-type preference: \<open>0.6 * 0.5 + 0.2 * 1.0 + 0.2 * 0.5\<close> rounds to 0.6.
\<close>

theorem calculate_score_weighted_and_rounded_witness:
  "calculate_score ascii_lower ex_profile_lagos ex_job_python_go = fl (60 / 100)
   \<and> py_round2
        (float_add (float_add (float_mul (fl (6 / 10)) (1 / 2)) (float_mul (fl (2 / 10)) 1))
           (float_mul (fl (2 / 10)) (1 / 2))) = fl (60 / 100)
   \<and> \<bar>fl (60 / 100) - (6 / 10 * (1 / 2) + 2 / 10 * 1 + 2 / 10 * (1 / 2))\<bar>
        \<le> 1 / 200 + 1 / 2 ^ 49
   \<and> 0 \<le> fl (60 / 100) \<and> fl (60 / 100) \<le> 1"
  using calculate_score_weighted_and_rounded [of ascii_lower ex_profile_lagos ex_job_python_go]
  by (simp add: ex_scores ex_subscores)

section \<open>Location sub-score (C5)\<close>



section \<open>Threshold (C4)\<close>

text \<open>
  Claim C4: every record a generation run returns has a score above 0.10, and every row
  of the table after the run either was there before or has a score above 0.10. When the
  limit does not cut the list, the record of an eligible job is returned exactly when its
  score is above 0.10: a score of exactly 0.10 is dropped, a score of 0.20 is kept.
\<close>

theorem generate_threshold:
  assumes "generate_recommendations lw db uid limit = (recs, db')"
  shows "(\<forall>r\<in>set recs. fl (1 / 10) < score r)
       \<and> (\<forall>r\<in>set (job_recommendations db'). r \<in> set (job_recommendations db) \<or> fl (1 / 10) < score r)
       \<and> (\<forall>p j. freelancer_profiles db uid = Some p \<and> j \<in> set (candidate_jobs db uid)
                 \<and> int (length (candidate_jobs db uid)) \<le> limit
              \<longrightarrow> (new_recommendation uid j (calculate_score lw p j) \<in> set recs
                     \<longleftrightarrow> fl (1 / 10) < calculate_score lw p j))"
proof (cases "freelancer_profiles db uid")
  case None
  with assms show ?thesis by (simp add: generate_None)
next
  case (Some p)
  have recs: "recs = py_slice_to (ranked lw db uid p) limit"
    and db': "job_recommendations db' =
                filter (\<lambda>r. \<not> is_old_batch uid r) (job_recommendations db) @ recs"
    using assms Some by (auto simp: generate_Some)
  have a: "\<forall>r\<in>set recs. fl (1 / 10) < score r"
    unfolding recs using batch_threshold by blast
  have b: "\<forall>r\<in>set (job_recommendations db'). r \<in> set (job_recommendations db) \<or> fl (1 / 10) < score r"
    using a by (auto simp: db')
  have c: "new_recommendation uid j (calculate_score lw p j) \<in> set recs
             \<longleftrightarrow> fl (1 / 10) < calculate_score lw p j"
    if "j \<in> set (candidate_jobs db uid)" "int (length (candidate_jobs db uid)) \<le> limit" for j
  proof -
    have "int (length (ranked lw db uid p)) \<le> limit"
      using that(2) length_ranked [of lw db uid p] by linarith
    then have "recs = ranked lw db uid p"
      by (simp add: recs py_slice_to_all)
    then show ?thesis
      using score_jobs_member [OF that(1)] by (simp add: set_ranked)
  qed
  show ?thesis using a b c Some by auto
qed

text \<open>
  On the example data, user 2 scores the only eligible job at exactly 0.10 and gets
  nothing; user 1 scores the same job at 0.20 and gets it.
\<close>

theorem generate_threshold_witness:
  "generate_recommendations ascii_lower ex_db 2 10
     = ([], ex_db\<lparr>job_recommendations :=
                   [ex_rec 1 99 (1 / 2) ContentBased, ex_rec 1 98 (1 / 4) Hybrid,
                    ex_rec 3 96 (7 / 8) ContentBased, ex_rec 4 95 (1 / 16) ContentBased]\<rparr>)
   \<and> ex_job_python_go \<in> set (candidate_jobs ex_db 2)
   \<and> calculate_score ascii_lower ex_profile_contract ex_job_python_go = fl (1 / 10)
   \<and> new_recommendation 2 ex_job_python_go (fl (1 / 10))
        \<notin> set (fst (generate_recommendations ascii_lower ex_db 2 10))
   \<and> ex_job_python_go \<in> set (candidate_jobs ex_db 1)
   \<and> calculate_score ascii_lower ex_profile_no_prefs ex_job_python_go = fl (2 / 10)
   \<and> new_recommendation 1 ex_job_python_go (fl (2 / 10))
        \<in> set (fst (generate_recommendations ascii_lower ex_db 1 10))"
proof -
  have e: "generate_recommendations ascii_lower ex_db 2 10
     = ([], ex_db\<lparr>job_recommendations :=
                   [ex_rec 1 99 (1 / 2) ContentBased, ex_rec 1 98 (1 / 4) Hybrid,
                    ex_rec 3 96 (7 / 8) ContentBased, ex_rec 4 95 (1 / 16) ContentBased]\<rparr>)"
    by (simp add: ex_eval)
  have s: "calculate_score ascii_lower ex_profile_contract ex_job_python_go = fl (1 / 10)"
    by (simp add: ex_scores)
  have c: "ex_job_python_go \<in> set (candidate_jobs ex_db 2)"
    by (simp add: candidate_jobs_def ex_defs)
  have p: "freelancer_profiles ex_db 2 = Some ex_profile_contract"
    by (simp add: ex_db_def)
  have l: "int (length (candidate_jobs ex_db 2)) \<le> 10"
    by (simp add: candidate_jobs_def ex_defs)
  have s1: "calculate_score ascii_lower ex_profile_no_prefs ex_job_python_go = fl (2 / 10)"
    by (simp add: ex_scores)
  have c1: "ex_job_python_go \<in> set (candidate_jobs ex_db 1)"
    by (simp add: candidate_jobs_def ex_defs)
  have p1: "freelancer_profiles ex_db 1 = Some ex_profile_no_prefs"
    by (simp add: ex_db_def)
  have l1: "int (length (candidate_jobs ex_db 1)) \<le> 10"
    by (simp add: candidate_jobs_def ex_defs)
  obtain recs db' where e1: "generate_recommendations ascii_lower ex_db 1 10 = (recs, db')"
    by (cases "generate_recommendations ascii_lower ex_db 1 10")
  have "new_recommendation 2 ex_job_python_go (calculate_score ascii_lower ex_profile_contract ex_job_python_go)
          \<in> set [] \<longleftrightarrow> fl (1 / 10) < calculate_score ascii_lower ex_profile_contract ex_job_python_go"
    using generate_threshold [OF e] p c l by blast
  moreover have "new_recommendation 1 ex_job_python_go
                   (calculate_score ascii_lower ex_profile_no_prefs ex_job_python_go) \<in> set recs
          \<longleftrightarrow> fl (1 / 10) < calculate_score ascii_lower ex_profile_no_prefs ex_job_python_go"
    using generate_threshold [OF e1] p1 c1 l1 by blast
  ultimately show ?thesis
    using e s c s1 c1 e1 by (simp add: fl_values)
qed

section \<open>Order and size of the result (C6)\<close>

text \<open>
  Claim C6: the returned sequence is sorted by score, highest first, and for a limit
  that is not negative it has at most \<open>limit\<close> records.
\<close>

theorem generate_sorted_and_bounded:
  assumes "generate_recommendations lw db uid limit = (recs, db')"
  shows "sorted_wrt (\<lambda>a b. score b \<le> score a) recs
       \<and> (0 \<le> limit \<longrightarrow> int (length recs) \<le> limit)"
proof (cases "freelancer_profiles db uid")
  case None
  with assms have "recs = []" by (simp add: generate_None)
  then show ?thesis by simp
next
  case (Some p)
  with assms have "recs = py_slice_to (ranked lw db uid p) limit"
    by (simp add: generate_Some)
  then show ?thesis
    by (simp add: ranked_def sorted_wrt_py_slice_to sorted_sort_by_score_desc
        length_py_slice_to)
qed

text \<open>
  User 3 on the example data: the table order of the two eligible jobs is reversed by
  the sort.
\<close>

theorem generate_sorted_and_bounded_witness:
  "generate_recommendations ascii_lower ex_db 3 10
     = ([ex_rec 3 10 (fl (3 / 5)) ContentBased, ex_rec 3 11 (fl (3 / 10)) ContentBased],
        ex_db\<lparr>job_recommendations :=
                [ex_rec 1 99 (1 / 2) ContentBased, ex_rec 1 98 (1 / 4) Hybrid,
                 ex_rec 2 97 (3 / 4) ContentBased, ex_rec 4 95 (1 / 16) ContentBased,
                 ex_rec 3 10 (fl (3 / 5)) ContentBased, ex_rec 3 11 (fl (3 / 10)) ContentBased]\<rparr>)
   \<and> sorted_wrt (\<lambda>a b. score b \<le> score a)
        [ex_rec 3 10 (fl (3 / 5)) ContentBased, ex_rec 3 11 (fl (3 / 10)) ContentBased]
   \<and> int (length [ex_rec 3 10 (fl (3 / 5)) ContentBased, ex_rec 3 11 (fl (3 / 10)) ContentBased]) \<le> 10"
proof -
  have e: "generate_recommendations ascii_lower ex_db 3 10
     = ([ex_rec 3 10 (fl (3 / 5)) ContentBased, ex_rec 3 11 (fl (3 / 10)) ContentBased],
        ex_db\<lparr>job_recommendations :=
                [ex_rec 1 99 (1 / 2) ContentBased, ex_rec 1 98 (1 / 4) Hybrid,
                 ex_rec 2 97 (3 / 4) ContentBased, ex_rec 4 95 (1 / 16) ContentBased,
                 ex_rec 3 10 (fl (3 / 5)) ContentBased, ex_rec 3 11 (fl (3 / 10)) ContentBased]\<rparr>)"
    by (simp add: ex_eval)
  show ?thesis
    using generate_sorted_and_bounded [OF e] e by simp
qed

section \<open>Limits below one (C7)\<close>

text \<open>
  Claim C7 as stated (any limit of zero or less gives an empty result) fails for a
  negative limit: the slice \<open>recommendations[:-1]\<close> keeps all but the last record.
\<close>

theorem generate_negative_limit_counterexample:
  "(- 1 :: int) \<le> 0 \<and> fst (generate_recommendations ascii_lower ex_db 1 (- 1)) \<noteq> []"
  by (simp add: ex_eval)

text \<open>
  Claim C7, as the code has it: with limit 0 the result is empty; with a negative limit
  the result is the ranked list without its last \<open>|limit|\<close> records, which is empty
  only when at most \<open>|limit|\<close> records passed the threshold.
\<close>

theorem generate_nonpositive_limit:
  assumes "limit \<le> 0"
  shows "fst (generate_recommendations lw db uid limit) =
           (case freelancer_profiles db uid of
              None \<Rightarrow> []
            | Some p \<Rightarrow>
                if limit = 0 then []
                else take (length (ranked lw db uid p) - nat (- limit)) (ranked lw db uid p))"
  using assms
  by (cases "freelancer_profiles db uid")
     (auto simp: generate_None generate_Some py_slice_to_def)

text \<open>
  User 1 on the example data has two ranked records: limit 0 returns none, limit -1
  returns the first, limit -2 returns none.
\<close>

theorem generate_nonpositive_limit_witness:
  "fst (generate_recommendations ascii_lower ex_db 1 0) = []
   \<and> ranked ascii_lower ex_db 1 ex_profile_no_prefs
       = [ex_rec 1 11 (fl (1 / 5)) ContentBased, ex_rec 1 10 (fl (1 / 5)) ContentBased]
   \<and> fst (generate_recommendations ascii_lower ex_db 1 (- 1)) = [ex_rec 1 11 (fl (1 / 5)) ContentBased]
   \<and> fst (generate_recommendations ascii_lower ex_db 1 (- 2)) = []"
proof -
  have r: "ranked ascii_lower ex_db 1 ex_profile_no_prefs
       = [ex_rec 1 11 (fl (1 / 5)) ContentBased, ex_rec 1 10 (fl (1 / 5)) ContentBased]"
    by (simp add: ranked_def ex_eval)
  have p: "freelancer_profiles ex_db 1 = Some ex_profile_no_prefs"
    by (simp add: ex_db_def)
  show ?thesis
    using generate_nonpositive_limit [of 0 ascii_lower ex_db 1]
      generate_nonpositive_limit [of "- 1" ascii_lower ex_db 1]
      generate_nonpositive_limit [of "- 2" ascii_lower ex_db 1] r p
    by simp
qed

section \<open>No candidate profile (C8)\<close>

text \<open>
  Claim C8: for a user without a freelancer profile generation returns the empty list,
  as a normal result, and the database is the one it was given.
\<close>

theorem generate_without_profile:
  assumes "freelancer_profiles db uid = None"
  shows "generate_recommendations lw db uid limit = ([], db)"
  using assms by (simp add: generate_recommendations_def)

text \<open>
  User 4 of the example data has no profile and an old content-based row, which stays.
\<close>

theorem generate_without_profile_witness:
  "freelancer_profiles ex_db 4 = None
   \<and> generate_recommendations ascii_lower ex_db 4 10 = ([], ex_db)
   \<and> ex_rec 4 95 (1 / 16) ContentBased \<in> set (job_recommendations ex_db)"
proof -
  have n: "freelancer_profiles ex_db 4 = None"
    by (simp add: ex_db_def)
  show ?thesis
    using generate_without_profile [OF n, of ascii_lower 10] n by (simp add: ex_db_def ex_old_recs_def)
qed

section \<open>Replacement of the old batch (C9)\<close>

text \<open>
  Claim C9: a generation run leaves every recommendation row of another user, and every
  row of the same user with another algorithm tag, where it was; and when the user has a
  profile, the table after the run is those rows followed by the new batch, so all of the
  user's old content-based rows are gone before the new ones are inserted.
\<close>

theorem generate_replaces_only_own_batch:
  assumes "generate_recommendations lw db uid limit = (recs, db')"
  shows "filter (\<lambda>r. \<not> (rec_user r = uid \<and> algorithm_type r = ContentBased))
           (job_recommendations db')
         = filter (\<lambda>r. \<not> (rec_user r = uid \<and> algorithm_type r = ContentBased))
             (job_recommendations db)
       \<and> (freelancer_profiles db uid \<noteq> None \<longrightarrow>
            job_recommendations db'
              = filter (\<lambda>r. \<not> (rec_user r = uid \<and> algorithm_type r = ContentBased))
                  (job_recommendations db) @ recs)"
proof (cases "freelancer_profiles db uid")
  case None
  with assms show ?thesis by (simp add: generate_None)
next
  case (Some p)
  have "filter (\<lambda>r. \<not> is_old_batch uid r) (py_slice_to (ranked lw db uid p) limit) = []"
    by (auto simp: filter_empty_conv dest: batch_old_batch)
  with Some assms show ?thesis
    by (auto simp: generate_Some is_old_batch_def)
qed

text \<open>
  User 3 on the example data with limit 1: the old content-based row of user 3 is
  replaced, the rows of users 1, 2 and 4 (one of them tagged hybrid) stay.
\<close>

theorem generate_replaces_only_own_batch_witness:
  "generate_recommendations ascii_lower ex_db 3 1
     = ([ex_rec 3 10 (fl (3 / 5)) ContentBased],
        ex_db\<lparr>job_recommendations :=
                [ex_rec 1 99 (1 / 2) ContentBased, ex_rec 1 98 (1 / 4) Hybrid,
                 ex_rec 2 97 (3 / 4) ContentBased, ex_rec 4 95 (1 / 16) ContentBased,
                 ex_rec 3 10 (fl (3 / 5)) ContentBased]\<rparr>)
   \<and> filter (\<lambda>r. \<not> (rec_user r = 3 \<and> algorithm_type r = ContentBased)) ex_old_recs
       = [ex_rec 1 99 (1 / 2) ContentBased, ex_rec 1 98 (1 / 4) Hybrid,
          ex_rec 2 97 (3 / 4) ContentBased, ex_rec 4 95 (1 / 16) ContentBased]"
proof -
  have e: "generate_recommendations ascii_lower ex_db 3 1
     = ([ex_rec 3 10 (fl (3 / 5)) ContentBased],
        ex_db\<lparr>job_recommendations :=
                [ex_rec 1 99 (1 / 2) ContentBased, ex_rec 1 98 (1 / 4) Hybrid,
                 ex_rec 2 97 (3 / 4) ContentBased, ex_rec 4 95 (1 / 16) ContentBased,
                 ex_rec 3 10 (fl (3 / 5)) ContentBased]\<rparr>)"
    by (simp add: ex_eval)
  show ?thesis
    using generate_replaces_only_own_batch [OF e] e by (simp add: ex_defs)
qed

section \<open>The persisted batch is the returned batch (C10)\<close>

text \<open>
  Claim C10: for a user with a profile, the user's content-based rows after a run are
  exactly the returned batch, in order. When no eligible job scores above the threshold
  (in particular when there is no eligible job), the batch is empty and the user is left
  with no content-based row.
\<close>

theorem generate_persists_exactly_batch:
  assumes "freelancer_profiles db uid = Some p"
    and "generate_recommendations lw db uid limit = (recs, db')"
  shows "filter (\<lambda>r. rec_user r = uid \<and> algorithm_type r = ContentBased)
           (job_recommendations db') = recs
       \<and> ((\<forall>j\<in>set (candidate_jobs db uid). \<not> fl (1 / 10) < calculate_score lw p j) \<longrightarrow>
            recs = []
            \<and> filter (\<lambda>r. rec_user r = uid \<and> algorithm_type r = ContentBased)
                (job_recommendations db') = [])"
proof -
  have recs: "recs = py_slice_to (ranked lw db uid p) limit"
    and db': "job_recommendations db' =
                filter (\<lambda>r. \<not> is_old_batch uid r) (job_recommendations db) @ recs"
    using assms by (auto simp: generate_Some)
  have "filter (is_old_batch uid) recs = recs"
    unfolding recs by (auto simp: filter_id_conv dest: batch_old_batch)
  then have a: "filter (is_old_batch uid) (job_recommendations db') = recs"
    by (simp add: db')
  have b: "recs = []"
    if "\<forall>j\<in>set (candidate_jobs db uid). \<not> fl (1 / 10) < calculate_score lw p j"
  proof -
    have "ranked lw db uid p = []"
      using score_jobs_empty [OF that] by (simp add: ranked_def sort_by_score_desc_def)
    then show ?thesis by (simp add: recs py_slice_to_def)
  qed
  have c: "is_old_batch uid = (\<lambda>r. rec_user r = uid \<and> algorithm_type r = ContentBased)"
    by (rule ext) (simp add: is_old_batch_def)
  show ?thesis using a b unfolding c by auto
qed

text \<open>
  User 2 on the example data: one eligible job, scored at the threshold; the old
  content-based row of user 2 is deleted and nothing is inserted.
\<close>

theorem generate_persists_exactly_batch_witness:
  "freelancer_profiles ex_db 2 = Some ex_profile_contract
   \<and> ex_rec 2 97 (3 / 4) ContentBased \<in> set (job_recommendations ex_db)
   \<and> candidate_jobs ex_db 2 = [ex_job_python_go]
   \<and> \<not> fl (1 / 10) < calculate_score ascii_lower ex_profile_contract ex_job_python_go
   \<and> generate_recommendations ascii_lower ex_db 2 10
       = ([], ex_db\<lparr>job_recommendations :=
                     [ex_rec 1 99 (1 / 2) ContentBased, ex_rec 1 98 (1 / 4) Hybrid,
                      ex_rec 3 96 (7 / 8) ContentBased, ex_rec 4 95 (1 / 16) ContentBased]\<rparr>)
   \<and> filter (\<lambda>r. rec_user r = 2 \<and> algorithm_type r = ContentBased)
        [ex_rec 1 99 (1 / 2) ContentBased, ex_rec 1 98 (1 / 4) Hybrid,
         ex_rec 3 96 (7 / 8) ContentBased, ex_rec 4 95 (1 / 16) ContentBased] = []"
proof -
  have p: "freelancer_profiles ex_db 2 = Some ex_profile_contract"
    by (simp add: ex_db_def)
  have e: "generate_recommendations ascii_lower ex_db 2 10
       = ([], ex_db\<lparr>job_recommendations :=
                     [ex_rec 1 99 (1 / 2) ContentBased, ex_rec 1 98 (1 / 4) Hybrid,
                      ex_rec 3 96 (7 / 8) ContentBased, ex_rec 4 95 (1 / 16) ContentBased]\<rparr>)"
    by (simp add: ex_eval)
  have c: "candidate_jobs ex_db 2 = [ex_job_python_go]"
    by (simp add: candidate_jobs_def ex_defs)
  have s: "\<not> fl (1 / 10) < calculate_score ascii_lower ex_profile_contract ex_job_python_go"
    by (simp add: ex_scores)
  have o: "ex_rec 2 97 (3 / 4) ContentBased \<in> set (job_recommendations ex_db)"
    by (simp add: ex_db_def ex_old_recs_def)
  show ?thesis
    using generate_persists_exactly_batch [OF p e] p e c s o by simp
qed

end
